theory Spec2Isabelle
  imports Complex_Main
begin

text \<open>
  A model of \<^verbatim>\<open>src/script.js\<close> (the VanillaJS page template): the logger, the storage
  wrapper, the element helpers, the modal dialog, and the color demo. Every function that
  touches the page takes the state of the page and of the browser as a \<open>world\<close> and
  returns the new one; a function that can throw returns \<open>Inl\<close> of the error together
  with the state reached when it was thrown, since the effects made before a throw stay.
\<close>

section \<open>Values, errors and console output\<close>

text \<open>
  JavaScript values as far as the script tells them apart. A number carries its value, of
  which only being zero matters here (for truthiness).
\<close>

datatype jsval = JUndefined | JNull | JBool bool | JNumber real | JNaN | JString string | JObject

fun truthy :: "jsval \<Rightarrow> bool" where
  "truthy JUndefined = False"
| "truthy JNull = False"
| "truthy (JBool b) = b"
| "truthy (JNumber x) = (x \<noteq> 0)"
| "truthy JNaN = False"
| "truthy (JString s) = (s \<noteq> [])"
| "truthy JObject = True"

datatype error = TypeError | SyntaxError | SecurityError | QuotaExceededError

text \<open>
  A line of console output: a styled line of the logger with its mode and arguments (the
  caller's name read from the stack trace and the CSS are left out), or a
  \<^verbatim>\<open>console.error\<close> line.
\<close>

datatype log_arg = Text_arg string | Value_arg jsval | Error_arg error

datatype console_entry = Console_log string "log_arg list" | Console_error string

section \<open>Page elements\<close>

text \<open>
  An element carries its class list, its event listeners and its children. The two
  listeners the modal registers on dialog buttons are \<^verbatim>\<open>Modal.close\<close> itself and the arrow
  function of \<^verbatim>\<open>Modal.confirm\<close>, \<^verbatim>\<open>() => { Modal.close(); onConfirm() }\<close>; the caller's
  \<^verbatim>\<open>onConfirm\<close> is kept as an opaque token, since it only runs on a later click.
\<close>

datatype listener = Close_listener | Confirm_listener nat

datatype node = Text string | Element "string list" "(string \<times> listener) list" "node list"

text \<open>
  The argument of \<^verbatim>\<open>Modal.open\<close>: any value (a string among them), a detached
  \<^verbatim>\<open>DocumentFragment\<close>, or a detached node.
\<close>

datatype content = Value jsval | Fragment "node list" | Node node

text \<open>
  The state. \<open>modal_element\<close> and \<open>modal_content\<close> are the handles \<^verbatim>\<open>Modal.$.element\<close>
  (\<^verbatim>\<open>.modal\<close>, by its class list) and \<^verbatim>\<open>Modal.$.content\<close> (\<^verbatim>\<open>.modal__content\<close>, by its
  children), resolved once when the script is loaded: \<open>None\<close> is the \<^verbatim>\<open>null\<close> that
  \<^verbatim>\<open>querySelector\<close> returns for a missing element. \<open>body_overflow\<close> is
  \<^verbatim>\<open>document.body.style.overflow\<close>, \<open>templates\<close> the \<^verbatim>\<open>template\<close> elements by id,
  \<open>main_element\<close> the inline style of \<^verbatim>\<open>$.main.element\<close>. \<open>Log_ready\<close> says whether
  \<^verbatim>\<open>Log.init()\<close> has run, that is whether \<^verbatim>\<open>Log.red\<close>, \<^verbatim>\<open>Log.gray\<close>, ... exist.

  Three functions belong to the browser and are parameters of the model: the HTML parser
  behind \<^verbatim>\<open>innerHTML\<close>, \<^verbatim>\<open>JSON.parse\<close> (\<open>None\<close> when it throws a SyntaxError) and
  \<^verbatim>\<open>JSON.stringify\<close>. \<open>storage_blocked\<close> makes every access to \<^verbatim>\<open>localStorage\<close> throw,
  \<open>storage_full\<close> makes \<^verbatim>\<open>setItem\<close> throw.
\<close>

record world =
  Log_ready :: bool
  console :: "console_entry list"
  modal_element :: "string list option"
  modal_content :: "node list option"
  body_overflow :: string
  templates :: "string \<Rightarrow> node list option"
  parseHTML :: "string \<Rightarrow> node list"
  localStorage :: "string \<Rightarrow> string option"
  storage_blocked :: bool
  storage_full :: bool
  JSON_parse :: "string \<Rightarrow> jsval option"
  JSON_stringify :: "jsval \<Rightarrow> string"
  STATE_mainColor :: jsval
  main_element :: "(string \<Rightarrow> jsval option) option"

type_synonym 'a result = "(error + 'a) \<times> world"

text \<open>Sequencing: a throw ends the function, with the state reached so far.\<close>

definition and_then :: "'a result \<Rightarrow> ('a \<Rightarrow> world \<Rightarrow> 'b result) \<Rightarrow> 'b result" where
  "and_then r f = (case r of (Inl e, s) \<Rightarrow> (Inl e, s) | (Inr a, s) \<Rightarrow> f a s)"

section \<open>Logger\<close>

text \<open>
  \<^verbatim>\<open>Log\<close> (script.js, lines 22 to 66). \<^verbatim>\<open>styled(mode, ...args)\<close> returns without output
  when the logger or the mode's style is inactive or the mode is unknown, and writes one
  line otherwise. The shortcuts \<^verbatim>\<open>Log.red\<close>, \<^verbatim>\<open>Log.gray\<close>, ... are not properties of the
  object literal: \<^verbatim>\<open>init()\<close> creates one for each key of \<^verbatim>\<open>styles\<close>,
  \<^verbatim>\<open>this[mode] = (...args) => this.styled(mode, ...args)\<close>. Calling one before
  \<^verbatim>\<open>Log.init()\<close> calls \<^verbatim>\<open>undefined\<close> and throws a TypeError.
\<close>

definition Log_active :: bool where
  "Log_active = True"

definition Log_styles :: "(string \<times> string \<times> bool) list" where
  "Log_styles =
     [(''blue'', ''color: steelblue;'', True), (''gray'', ''color: gray;'', True),
      (''orange'', ''color: orange;'', True), (''red'', ''color: red;'', True),
      (''white'', ''color: white;'', True), (''yellow'', ''color: yellow;'', True)]"

definition Log_styled :: "string \<Rightarrow> log_arg list \<Rightarrow> world \<Rightarrow> world" where
  "Log_styled mode args s =
     (if \<not> Log_active then s
      else case map_of Log_styles mode of
             None \<Rightarrow> s
           | Some (style, active) \<Rightarrow>
               if \<not> active then s else s\<lparr>console := console s @ [Console_log mode args]\<rparr>)"

definition Log_init :: "world \<Rightarrow> world" where
  "Log_init s = s\<lparr>Log_ready := True\<rparr>"

definition Log_shortcut :: "string \<Rightarrow> log_arg list \<Rightarrow> world \<Rightarrow> unit result" where
  "Log_shortcut mode args s =
     (if Log_ready s \<and> mode \<in> fst ` set Log_styles then (Inr (), Log_styled mode args s)
      else (Inl TypeError, s))"

definition Log_red :: "log_arg list \<Rightarrow> world \<Rightarrow> unit result" where
  "Log_red = Log_shortcut ''red''"

definition Log_gray :: "log_arg list \<Rightarrow> world \<Rightarrow> unit result" where
  "Log_gray = Log_shortcut ''gray''"

definition Log_white :: "log_arg list \<Rightarrow> world \<Rightarrow> unit result" where
  "Log_white = Log_shortcut ''white''"

section \<open>Storage\<close>

text \<open>
  \<^verbatim>\<open>Storage\<close> (script.js, lines 70 to 93):
  \<^verbatim>\<open>
  get: (key, defaultValue = null) => {
    try {
      const item = localStorage.getItem(key)
      return item ? JSON.parse(item) : defaultValue
    } catch (e) {
      Log.red('Storage read error:', e)
      return defaultValue
    }
  },
  set: (key, value) => {
    try {
      localStorage.setItem(key, JSON.stringify(value))
      return true
    } catch (e) {
      Log.red('Storage write error:', e)
      return false
    }
  },
  \<close>
  The handlers call \<^verbatim>\<open>Log.red\<close> before they return, so a handler that runs before
  \<^verbatim>\<open>Log.init()\<close> throws instead of returning.
\<close>

definition localStorage_getItem :: "string \<Rightarrow> world \<Rightarrow> error + string option" where
  "localStorage_getItem key s =
     (if storage_blocked s then Inl SecurityError else Inr (localStorage s key))"

definition localStorage_setItem :: "string \<Rightarrow> string \<Rightarrow> world \<Rightarrow> error + world" where
  "localStorage_setItem key v s =
     (if storage_blocked s then Inl SecurityError
      else if storage_full s then Inl QuotaExceededError
      else Inr (s\<lparr>localStorage := (localStorage s)(key \<mapsto> v)\<rparr>))"

definition Storage_get :: "string \<Rightarrow> jsval \<Rightarrow> world \<Rightarrow> jsval result" where
  "Storage_get key defaultValue s =
     (case localStorage_getItem key s of
        Inl e \<Rightarrow>
          and_then (Log_red [Text_arg ''Storage read error:'', Error_arg e] s)
            (\<lambda>_ s'. (Inr defaultValue, s'))
      | Inr None \<Rightarrow> (Inr defaultValue, s)
      | Inr (Some item) \<Rightarrow>
          if item = [] then (Inr defaultValue, s)
          else (case JSON_parse s item of
                  Some v \<Rightarrow> (Inr v, s)
                | None \<Rightarrow>
                    and_then (Log_red [Text_arg ''Storage read error:'', Error_arg SyntaxError] s)
                      (\<lambda>_ s'. (Inr defaultValue, s'))))"

definition Storage_set :: "string \<Rightarrow> jsval \<Rightarrow> world \<Rightarrow> jsval result" where
  "Storage_set key v s =
     (case localStorage_setItem key (JSON_stringify s v) s of
        Inr s' \<Rightarrow> (Inr (JBool True), s')
      | Inl e \<Rightarrow>
          and_then (Log_red [Text_arg ''Storage write error:'', Error_arg e] s)
            (\<lambda>_ s'. (Inr (JBool False), s')))"

section \<open>DOM helpers\<close>

text \<open>
  \<^verbatim>\<open>querySelector\<close> for a class selector (the class is given without its dot): the first
  element in document order below the context that has the class, as the path of child
  indices that leads to it. A path stands for the reference that JavaScript returns.
\<close>

fun shift :: "nat list \<Rightarrow> nat list" where
  "shift [] = []"
| "shift (i # p) = Suc i # p"

function querySelector :: "string \<Rightarrow> node list \<Rightarrow> nat list option" where
  "querySelector c [] = None"
| "querySelector c (Text t # ns) = map_option shift (querySelector c ns)"
| "querySelector c (Element cs ls ks # ns) =
     (if c \<in> set cs then Some [0]
      else case querySelector c ks of
             Some p \<Rightarrow> Some (0 # p)
           | None \<Rightarrow> map_option shift (querySelector c ns))"
  by pat_completeness auto
termination
  by (relation "measure (\<lambda>(c, ns). size_list size ns)") auto

text \<open>A change made through a reference: the node at the path is replaced by its image.\<close>

fun update_at :: "nat list \<Rightarrow> (node \<Rightarrow> node) \<Rightarrow> node list \<Rightarrow> node list" where
  "update_at [] f ns = ns"
| "update_at (i # p) f [] = []"
| "update_at (0 # p) f (n # ns) =
     (if p = [] then f n # ns
      else case n of
             Element cs ls ks \<Rightarrow> Element cs ls (update_at p f ks) # ns
           | Text t \<Rightarrow> Text t # ns)"
| "update_at (Suc i # p) f (n # ns) = n # update_at (i # p) f ns"

text \<open>
  Assigning \<^verbatim>\<open>textContent\<close> replaces the children by one text node (by none for the empty
  string). \<^verbatim>\<open>addEventListener\<close> appends the listener; registering the same function again
  for the same event is ignored by the platform, which applies to \<^verbatim>\<open>Modal.close\<close> and not
  to the arrow function of \<^verbatim>\<open>Modal.confirm\<close>, a new function at every call.
\<close>

fun set_textContent :: "string \<Rightarrow> node \<Rightarrow> node" where
  "set_textContent t (Element cs ls ks) = Element cs ls (if t = [] then [] else [Text t])"
| "set_textContent t (Text u) = Text t"

fun addEventListener :: "string \<Rightarrow> listener \<Rightarrow> node \<Rightarrow> node" where
  "addEventListener ev l (Element cs ls ks) =
     Element cs (if l = Close_listener \<and> (ev, l) \<in> set ls then ls else ls @ [(ev, l)]) ks"
| "addEventListener ev l (Text t) = Text t"

fun is_Element :: "node \<Rightarrow> bool" where
  "is_Element (Element cs ls ks) = True"
| "is_Element (Text t) = False"

definition classList_add :: "string \<Rightarrow> string list \<Rightarrow> string list" where
  "classList_add c cs = (if c \<in> set cs then cs else cs @ [c])"

definition classList_remove :: "string \<Rightarrow> string list \<Rightarrow> string list" where
  "classList_remove c cs = filter (\<lambda>x. x \<noteq> c) cs"

text \<open>
  \<^verbatim>\<open>DOM\<close> (script.js, lines 97 to 260), the helpers the modal and the color demo use. Each
  takes the element's state, \<open>None\<close> for \<^verbatim>\<open>null\<close>, and returns the new one:
  \<^verbatim>\<open>
  get: (selector, context = document) => context.querySelector(selector),
  clear: (element) => element && (element.innerHTML = ''),
  setHTML: (element, html) => element && (element.innerHTML = html),
  addClass: (element, className) => element?.classList.add(className),
  removeClass: (element, className) => element?.classList.remove(className),
  hasClass: (element, className) => element?.classList.contains(className) || false,
  append: (parent, child) => parent?.appendChild(child),
  lockScroll: () => (document.body.style.overflow = 'hidden'),
  unlockScroll: () => (document.body.style.overflow = ''),
  \<close>
  \<^verbatim>\<open>DOM.get\<close> does not guard its context: the default \<^verbatim>\<open>document\<close> replaces only
  \<^verbatim>\<open>undefined\<close>, so a \<^verbatim>\<open>null\<close> context throws a TypeError.
\<close>

definition DOM_clear :: "node list option \<Rightarrow> node list option" where
  "DOM_clear element = map_option (\<lambda>_. []) element"

definition DOM_setHTML :: "(string \<Rightarrow> node list) \<Rightarrow> node list option \<Rightarrow> string \<Rightarrow> node list option" where
  "DOM_setHTML parse element html = map_option (\<lambda>_. parse html) element"

definition DOM_append :: "node list option \<Rightarrow> node list \<Rightarrow> node list option" where
  "DOM_append parent children = map_option (\<lambda>ks. ks @ children) parent"

definition DOM_addClass :: "string list option \<Rightarrow> string \<Rightarrow> string list option" where
  "DOM_addClass element className = map_option (classList_add className) element"

definition DOM_removeClass :: "string list option \<Rightarrow> string \<Rightarrow> string list option" where
  "DOM_removeClass element className = map_option (classList_remove className) element"

definition DOM_hasClass :: "string list option \<Rightarrow> string \<Rightarrow> bool" where
  "DOM_hasClass element className =
     (case element of None \<Rightarrow> False | Some cs \<Rightarrow> className \<in> set cs)"

definition DOM_get :: "string \<Rightarrow> node list option \<Rightarrow> error + nat list option" where
  "DOM_get c context =
     (case context of None \<Rightarrow> Inl TypeError | Some ns \<Rightarrow> Inr (querySelector c ns))"

text \<open>
  \<^verbatim>\<open>
  getTemplate: (id) => {
    const template = DOM.getById(id)
    if (!template) {
      console.error(`Template ${id} not found`)
      return null
    }
    return template.content.cloneNode(true)
  },
  \<close>
\<close>

definition DOM_getTemplate :: "string \<Rightarrow> world \<Rightarrow> node list option \<times> world" where
  "DOM_getTemplate ident s =
     (case templates s ident of
        None \<Rightarrow> (None, s\<lparr>console := console s @ [Console_error (''Template '' @ ident @ '' not found'')]\<rparr>)
      | Some t \<Rightarrow> (Some t, s))"

definition DOM_lockScroll :: "world \<Rightarrow> world" where
  "DOM_lockScroll s = s\<lparr>body_overflow := ''hidden''\<rparr>"

definition DOM_unlockScroll :: "world \<Rightarrow> world" where
  "DOM_unlockScroll s = s\<lparr>body_overflow := []\<rparr>"

text \<open>
  \<^verbatim>\<open>
  setStyle: (element, property, value) => {
    if (!element) return
    if (typeof property === 'object') {
      Object.entries(property).forEach(([key, val]) => (element.style[key] = val))
    } else {
      element.style[property] = value
    }
  },
  \<close>
  The style is the map of the values assigned.
\<close>

datatype style_arg = Property string | Properties "(string \<times> jsval) list"

definition DOM_setStyle ::
  "(string \<Rightarrow> jsval option) option \<Rightarrow> style_arg \<Rightarrow> jsval \<Rightarrow> (string \<Rightarrow> jsval option) option" where
  "DOM_setStyle element property v =
     (case element of
        None \<Rightarrow> None
      | Some style \<Rightarrow>
          (case property of
             Properties kvs \<Rightarrow> Some (fold (\<lambda>(k, x) st. st(k \<mapsto> x)) kvs style)
           | Property p \<Rightarrow> Some (style(p \<mapsto> v))))"

section \<open>Modal\<close>

text \<open>
  \<^verbatim>\<open>Modal.open\<close>, \<^verbatim>\<open>Modal.close\<close> and \<^verbatim>\<open>Modal.isOpen\<close> (script.js, lines 346 to 378):
  \<^verbatim>\<open>
  open: (content) => {
    if (!Modal.$.element) {
      Log.red('Modal not initialized')
      return
    }
    DOM.clear(Modal.$.content)
    if (typeof content === 'string') {
      DOM.setHTML(Modal.$.content, content)
    } else if (content instanceof DocumentFragment || content instanceof HTMLElement) {
      DOM.append(Modal.$.content, content)
    }
    DOM.addClass(Modal.$.element, 'modal--active')
    DOM.lockScroll()
    Log.gray('Modal opened')
  },
  close: () => {
    if (!Modal.$.element) return
    DOM.removeClass(Modal.$.element, 'modal--active')
    DOM.unlockScroll()
    Log.gray('Modal closed')
  },
  isOpen: () => {
    return Modal.$.element && DOM.hasClass(Modal.$.element, 'modal--active')
  },
  \<close>
  A text node is neither a \<^verbatim>\<open>DocumentFragment\<close> nor an \<^verbatim>\<open>HTMLElement\<close>, so it is not
  appended. \<^verbatim>\<open>isOpen\<close> returns its left operand, \<^verbatim>\<open>null\<close>, when the overlay is absent.
\<close>

definition Modal_open :: "content \<Rightarrow> world \<Rightarrow> unit result" where
  "Modal_open content s =
     (if modal_element s = None then Log_red [Text_arg ''Modal not initialized''] s
      else
        let s1 = s\<lparr>modal_content := DOM_clear (modal_content s)\<rparr>;
            s2 = (case content of
                    Value (JString html) \<Rightarrow>
                      s1\<lparr>modal_content := DOM_setHTML (parseHTML s1) (modal_content s1) html\<rparr>
                  | Value v \<Rightarrow> s1
                  | Fragment ns \<Rightarrow> s1\<lparr>modal_content := DOM_append (modal_content s1) ns\<rparr>
                  | Node n \<Rightarrow>
                      if is_Element n then s1\<lparr>modal_content := DOM_append (modal_content s1) [n]\<rparr>
                      else s1);
            s3 = s2\<lparr>modal_element := DOM_addClass (modal_element s2) ''modal--active''\<rparr>;
            s4 = DOM_lockScroll s3
        in Log_gray [Text_arg ''Modal opened''] s4)"

definition Modal_close :: "world \<Rightarrow> unit result" where
  "Modal_close s =
     (if modal_element s = None then (Inr (), s)
      else
        let s1 = s\<lparr>modal_element := DOM_removeClass (modal_element s) ''modal--active''\<rparr>;
            s2 = DOM_unlockScroll s1
        in Log_gray [Text_arg ''Modal closed''] s2)"

definition Modal_isOpen :: "world \<Rightarrow> jsval" where
  "Modal_isOpen s =
     (if modal_element s = None then JNull
      else JBool (DOM_hasClass (modal_element s) ''modal--active''))"

text \<open>
  \<^verbatim>\<open>Modal.alert\<close> and \<^verbatim>\<open>Modal.confirm\<close> (script.js, lines 382 to 426):
  \<^verbatim>\<open>
  alert: (title, message) => {
    const content = DOM.getTemplate('modal-alert')
    if (!content) return
    content.querySelector('.modal__title').textContent = title
    content.querySelector('.modal__text').textContent = message
    Modal.open(content)
    const button = DOM.get('.modal__button', Modal.$.content)
    if (button) {
      DOM.on(button, 'click', Modal.close)
    }
  },
  confirm: (title, message, onConfirm) => {
    const content = DOM.getTemplate('modal-confirm')
    if (!content) return
    DOM.get('.modal__title', content).textContent = title
    DOM.get('.modal__text', content).textContent = message
    Modal.open(content)
    const cancelBtn = DOM.get('.modal__button--cancel', Modal.$.content)
    const confirmBtn = DOM.get('.modal__button--confirm', Modal.$.content)
    if (cancelBtn) {
      DOM.on(cancelBtn, 'click', Modal.close)
    }
    if (confirmBtn) {
      DOM.on(confirmBtn, 'click', () => {
        Modal.close()
        onConfirm()
      })
    }
  },
  \<close>
  \<open>fill_slot\<close> is \<^verbatim>\<open>content.querySelector(c).textContent = t\<close>, a TypeError when the
  template has no such element; \<open>listen_on\<close> is \<^verbatim>\<open>if (button) DOM.on(button, 'click', l)\<close>.
\<close>

definition fill_slot :: "string \<Rightarrow> string \<Rightarrow> node list \<Rightarrow> error + node list" where
  "fill_slot c t ns =
     (case querySelector c ns of
        None \<Rightarrow> Inl TypeError
      | Some p \<Rightarrow> Inr (update_at p (set_textContent t) ns))"

definition listen_on :: "nat list option \<Rightarrow> listener \<Rightarrow> world \<Rightarrow> world" where
  "listen_on button l s =
     (case button of
        None \<Rightarrow> s
      | Some p \<Rightarrow>
          s\<lparr>modal_content :=
              map_option (update_at p (addEventListener ''click'' l)) (modal_content s)\<rparr>)"

definition Modal_alert :: "string \<Rightarrow> string \<Rightarrow> world \<Rightarrow> unit result" where
  "Modal_alert title message s =
     (case DOM_getTemplate ''modal-alert'' s of
        (None, s1) \<Rightarrow> (Inr (), s1)
      | (Some content, s1) \<Rightarrow>
          (case fill_slot ''modal__title'' title content of
             Inl e \<Rightarrow> (Inl e, s1)
           | Inr content1 \<Rightarrow>
               (case fill_slot ''modal__text'' message content1 of
                  Inl e \<Rightarrow> (Inl e, s1)
                | Inr content2 \<Rightarrow>
                    and_then (Modal_open (Fragment content2) s1)
                      (\<lambda>_ s2. case DOM_get ''modal__button'' (modal_content s2) of
                                 Inl e \<Rightarrow> (Inl e, s2)
                               | Inr button \<Rightarrow> (Inr (), listen_on button Close_listener s2)))))"

definition Modal_confirm :: "string \<Rightarrow> string \<Rightarrow> nat \<Rightarrow> world \<Rightarrow> unit result" where
  "Modal_confirm title message onConfirm s =
     (case DOM_getTemplate ''modal-confirm'' s of
        (None, s1) \<Rightarrow> (Inr (), s1)
      | (Some content, s1) \<Rightarrow>
          (case fill_slot ''modal__title'' title content of
             Inl e \<Rightarrow> (Inl e, s1)
           | Inr content1 \<Rightarrow>
               (case fill_slot ''modal__text'' message content1 of
                  Inl e \<Rightarrow> (Inl e, s1)
                | Inr content2 \<Rightarrow>
                    and_then (Modal_open (Fragment content2) s1)
                      (\<lambda>_ s2. case DOM_get ''modal__button--cancel'' (modal_content s2) of
                                 Inl e \<Rightarrow> (Inl e, s2)
                               | Inr cancelBtn \<Rightarrow>
                                   (case DOM_get ''modal__button--confirm'' (modal_content s2) of
                                      Inl e \<Rightarrow> (Inl e, s2)
                                    | Inr confirmBtn \<Rightarrow>
                                        (Inr (), listen_on confirmBtn (Confirm_listener onConfirm)
                                                   (listen_on cancelBtn Close_listener s2)))))))"

text \<open>
  The listeners of \<^verbatim>\<open>Modal.init\<close> (script.js, lines 331 to 342):
  \<^verbatim>\<open>
  DOM.on(Modal.$.element, 'click', (e) => {
    if (e.target === Modal.$.element) Modal.close()
  })
  DOM.on(Modal.$.close, 'click', Modal.close)
  DOM.on(document, 'keydown', (e) => {
    if (e.key === 'Escape' && Modal.isOpen()) Modal.close()
  })
  \<close>
  A click reaches the listener on the overlay root from the root itself or, by bubbling,
  from an element below it. \<^verbatim>\<open>e.target\<close> is given as the path from the overlay root down
  to the element clicked: the empty path is the root, \<^verbatim>\<open>e.target === Modal.$.element\<close>,
  and any other path is a descendant.
\<close>

definition Modal_init_click :: "nat list \<Rightarrow> world \<Rightarrow> unit result" where
  "Modal_init_click target s = (if target = [] then Modal_close s else (Inr (), s))"

definition Modal_init_keydown :: "string \<Rightarrow> world \<Rightarrow> unit result" where
  "Modal_init_keydown key s =
     (if key = ''Escape'' \<and> truthy (Modal_isOpen s) then Modal_close s else (Inr (), s))"

section \<open>Configuration, state and effects\<close>

text \<open>
  \<^verbatim>\<open>CONFIG\<close>, \<^verbatim>\<open>STATE\<close> and \<^verbatim>\<open>Effects.updateMainColor\<close> (script.js, lines 432 to 446 and
  500 to 506):
  \<^verbatim>\<open>
  const STATE = {
    mainColor: Storage.get(CONFIG.storage.mainColor) || CONFIG.defaults.mainColor,
  }
  updateMainColor: (newColor) => {
    if (!newColor) return
    STATE.mainColor = newColor
    Log.white(newColor)
    DOM.setStyle($.main.element, 'backgroundColor', newColor)
    Storage.set(CONFIG.storage.mainColor, newColor)
  },
  \<close>
  The \<^verbatim>\<open>STATE\<close> initializer runs while the script is evaluated (line 444); \<^verbatim>\<open>App.init()\<close>,
  whose first statement is \<^verbatim>\<open>Log.init()\<close>, is called on the last line (line 562).
\<close>

definition CONFIG_storage_mainColor :: string where
  "CONFIG_storage_mainColor = ''main-color''"

definition CONFIG_defaults_mainColor :: string where
  "CONFIG_defaults_mainColor = ''#111''"

definition STATE_init :: "world \<Rightarrow> unit result" where
  "STATE_init s =
     and_then (Storage_get CONFIG_storage_mainColor JNull s)
       (\<lambda>v s'. (Inr (), s'\<lparr>STATE_mainColor :=
                               (if truthy v then v else JString CONFIG_defaults_mainColor)\<rparr>))"

definition Effects_updateMainColor :: "jsval \<Rightarrow> world \<Rightarrow> unit result" where
  "Effects_updateMainColor newColor s =
     (if \<not> truthy newColor then (Inr (), s)
      else
        let s1 = s\<lparr>STATE_mainColor := newColor\<rparr>
        in and_then (Log_white [Value_arg newColor] s1)
             (\<lambda>_ s2.
                let s3 = s2\<lparr>main_element :=
                              DOM_setStyle (main_element s2) (Property ''backgroundColor'') newColor\<rparr>
                in and_then (Storage_set CONFIG_storage_mainColor newColor s3)
                     (\<lambda>_ s4. (Inr (), s4))))"

section \<open>Sequences of modal operations\<close>

text \<open>
  The calls and dismissal events that reach the modal, run in order. An exception thrown by
  one of them ends that call only: the page keeps the state reached, and the next call or
  event runs from there. The click listener on the overlay root exists only when the
  overlay does (\<^verbatim>\<open>DOM.on\<close> does nothing for \<^verbatim>\<open>null\<close>).
\<close>

datatype op =
    Op_open content
  | Op_close
  | Op_alert string string
  | Op_confirm string string nat
  | Ev_background_click "nat list"
  | Ev_close_click
  | Ev_keydown string

fun step :: "op \<Rightarrow> world \<Rightarrow> world" where
  "step (Op_open c) s = snd (Modal_open c s)"
| "step Op_close s = snd (Modal_close s)"
| "step (Op_alert t m) s = snd (Modal_alert t m s)"
| "step (Op_confirm t m k) s = snd (Modal_confirm t m k s)"
| "step (Ev_background_click p) s = (if modal_element s = None then s else snd (Modal_init_click p s))"
| "step Ev_close_click s = snd (Modal_close s)"
| "step (Ev_keydown k) s = snd (Modal_init_keydown k s)"

fun run :: "op list \<Rightarrow> world \<Rightarrow> world" where
  "run [] s = s"
| "run (x # xs) s = run xs (step x s)"

fun is_open :: "op \<Rightarrow> bool" where
  "is_open (Op_open c) = True"
| "is_open x = False"

fun open_or_close :: "op \<Rightarrow> bool" where
  "open_or_close (Op_open c) = True"
| "open_or_close Op_close = True"
| "open_or_close x = False"

text \<open>The scroll lock is held when the body's inline overflow style is \<^verbatim>\<open>hidden\<close>.\<close>

definition scroll_locked :: "world \<Rightarrow> bool" where
  "scroll_locked s = (body_overflow s = ''hidden'')"

text \<open>
  The part of the state that the lock invariant speaks about, and the invariant: the lock
  is held only if the overlay carries the class \<^verbatim>\<open>modal--active\<close>.
\<close>

definition ui :: "world \<Rightarrow> string list option \<times> string" where
  "ui s = (modal_element s, body_overflow s)"

definition lock_ok :: "string list option \<times> string \<Rightarrow> bool" where
  "lock_ok u = (snd u = ''hidden'' \<longrightarrow> (\<exists>cs. fst u = Some cs \<and> ''modal--active'' \<in> set cs))"

section \<open>Example pages\<close>

text \<open>
  Pages for the concrete instances below. \<open>demo_page\<close> follows the markup contract: an
  overlay with its content slot and the two templates. \<open>bare_page\<close> has neither the overlay
  nor the slot inside it, \<open>blank_page\<close> has no templates either, \<open>open_page\<close> shows a
  dialog and has no templates, and \<open>corrupt_page\<close> is a page being loaded whose store
  holds the text \<^verbatim>\<open>#111\<close> without quotes. The stand-ins for the JSON functions agree with
  \<^verbatim>\<open>JSON.stringify\<close> and \<^verbatim>\<open>JSON.parse\<close> on the texts used here: a string without quotes,
  backslashes or control characters is written between two quotes and read back from
  there, and a text that does not start with a quote, such as \<^verbatim>\<open>#111\<close>, is not read as a
  string.
\<close>

definition alert_template :: "node list" where
  "alert_template =
     [Element [''modal__title''] [] [], Element [''modal__text''] [] [],
      Element [''modal__button''] [] [Text ''OK'']]"

definition confirm_template :: "node list" where
  "confirm_template =
     [Element [''modal__title''] [] [], Element [''modal__text''] [] [],
      Element [''modal__button'', ''modal__button--cancel''] [] [Text ''Cancel''],
      Element [''modal__button'', ''modal__button--confirm''] [] [Text ''OK'']]"

definition quote :: string where
  "quote = [CHR 0x22]"

definition plain_stringify :: "jsval \<Rightarrow> string" where
  "plain_stringify v = (case v of JString t \<Rightarrow> quote @ t @ quote | _ \<Rightarrow> ''null'')"

definition plain_parse :: "string \<Rightarrow> jsval option" where
  "plain_parse t =
     (if 2 \<le> length t \<and> take 1 t = quote \<and> drop (length t - 1) t = quote
         \<and> CHR 0x22 \<notin> set (butlast (tl t)) \<and> CHR 0x5C \<notin> set (butlast (tl t))
      then Some (JString (butlast (tl t))) else None)"

definition demo_page :: world where
  "demo_page =
     \<lparr>Log_ready = True, console = [], modal_element = Some [''modal''],
      modal_content = Some [], body_overflow = [],
      templates = [''modal-alert'' \<mapsto> alert_template, ''modal-confirm'' \<mapsto> confirm_template],
      parseHTML = (\<lambda>html. [Text html]), localStorage = Map.empty,
      storage_blocked = False, storage_full = False,
      JSON_parse = plain_parse, JSON_stringify = plain_stringify,
      STATE_mainColor = JString ''#111'', main_element = Some Map.empty\<rparr>"

definition bare_page :: world where
  "bare_page = demo_page\<lparr>modal_element := None, modal_content := None\<rparr>"

definition blank_page :: world where
  "blank_page = bare_page\<lparr>templates := Map.empty\<rparr>"

definition open_page :: world where
  "open_page = run [Op_open (Value (JString ''hello''))] (demo_page\<lparr>templates := Map.empty\<rparr>)"

definition corrupt_page :: world where
  "corrupt_page =
     demo_page\<lparr>Log_ready := False, localStorage := [''main-color'' \<mapsto> ''#111''],
                STATE_mainColor := JUndefined\<rparr>"

section \<open>Pure functions\<close>

text \<open>
  \<^verbatim>\<open>Pure.getRandomGray\<close> (script.js, lines 470 to 476):
  \<^verbatim>\<open>
  getRandomGray: () => {
    const intensity = Math.floor(Math.random() * 255)
    const hex = intensity.toString(16).padStart(2, '0')
    return `#${hex}${hex}${hex}`
  }
  \<close>
  JavaScript numbers are IEEE 754 binary64 values, and the product \<^verbatim>\<open>Math.random() * 255\<close>
  is the exact product rounded to the nearest of them, ties to the even significand. A
  non-negative finite double is given by a significand \<open>m\<close> below \<open>2^53\<close> and an exponent
  \<open>e\<close> from \<open>-1074\<close> to \<open>971\<close>, and stands for \<open>m * 2^e\<close>; a number has several such
  pairs, and the functions below give the same number for each of them. The value drawn
  from \<^verbatim>\<open>Math.random()\<close> is the argument \<open>random\<close> of the model: a double at least 0 and
  below 1.
\<close>

type_synonym double = "nat \<times> int"

definition is_double :: "double \<Rightarrow> bool" where
  "is_double x = (fst x < 2 ^ 53 \<and> - 1074 \<le> snd x \<and> snd x \<le> 971)"

definition double_value :: "double \<Rightarrow> real" where
  "double_value x =
     (if 0 \<le> snd x then real (fst x) * 2 ^ nat (snd x) else real (fst x) / 2 ^ nat (- snd x))"

text \<open>The number of binary digits of a natural number.\<close>

fun bit_length :: "nat \<Rightarrow> nat" where
  "bit_length n = (if n = 0 then 0 else Suc (bit_length (n div 2)))"

declare bit_length.simps [simp del]

text \<open>
  \<open>M / 2^k\<close> rounded to the nearest integer, a tie going to the even one: the
  significand that is left when the last \<open>k\<close> binary digits of \<open>M\<close> are dropped.
\<close>

definition round_half_even :: "nat \<Rightarrow> nat \<Rightarrow> nat" where
  "round_half_even M k =
     (let q = M div 2 ^ k; r = M mod 2 ^ k
      in if 2 * r < 2 ^ k then q
         else if 2 ^ k < 2 * r then q + 1
         else if even q then q else q + 1)"

text \<open>
  The double nearest to the exact value \<open>M * 2^E\<close>. As many digits are dropped as it
  takes for the significand to fit 53 binary digits and for the exponent to be at least
  \<open>-1074\<close> (gradual underflow); a significand that rounds up to \<open>2^53\<close> moves to the next
  exponent. The result is taken to stay below \<open>2^1024\<close>: overflow to \<^verbatim>\<open>Infinity\<close> is not
  represented, and the products formed here are below 256.
\<close>

definition round_double :: "nat \<Rightarrow> int \<Rightarrow> double" where
  "round_double M E =
     (let k = nat (max (int (bit_length M) - 53) (- 1074 - E));
          q = round_half_even M k
      in if q = 2 ^ 53 then (2 ^ 52, E + int k + 1) else (q, E + int k))"

text \<open>The product of two non-negative finite doubles, as \<^verbatim>\<open>*\<close> computes it.\<close>

definition double_mul :: "double \<Rightarrow> double \<Rightarrow> double" where
  "double_mul x y = round_double (fst x * fst y) (snd x + snd y)"

text \<open>\<^verbatim>\<open>Math.floor\<close> of a non-negative finite double, as an integer.\<close>

definition Math_floor :: "double \<Rightarrow> int" where
  "Math_floor x =
     (if 0 \<le> snd x then int (fst x) * 2 ^ nat (snd x) else int (fst x) div 2 ^ nat (- snd x))"

definition hex_digit :: "nat \<Rightarrow> char" where
  "hex_digit d = ''0123456789abcdef'' ! d"

text \<open>The digits of a natural number in radix 16, most significant first.\<close>

fun digits16 :: "nat \<Rightarrow> string" where
  "digits16 n = (if n < 16 then [hex_digit n] else digits16 (n div 16) @ [hex_digit (n mod 16)])"

declare digits16.simps [simp del]

text \<open>\<^verbatim>\<open>Number.prototype.toString(16)\<close> on an integer: a minus sign, then the digits.\<close>

definition toString16 :: "int \<Rightarrow> string" where
  "toString16 i = (if i < 0 then CHR ''-'' # digits16 (nat (- i)) else digits16 (nat i))"

text \<open>\<^verbatim>\<open>String.prototype.padStart(n, c)\<close> with a pad string of one character.\<close>

definition padStart :: "nat \<Rightarrow> char \<Rightarrow> string \<Rightarrow> string" where
  "padStart n c s = replicate (n - length s) c @ s"

text \<open>\<^verbatim>\<open>Math.floor(Math.random() * 255)\<close>, with 255 as the double \<open>255 * 2^0\<close>.\<close>

definition intensity_of :: "double \<Rightarrow> int" where
  "intensity_of random = Math_floor (double_mul random (255, 0))"

definition getRandomGray :: "double \<Rightarrow> string" where
  "getRandomGray random =
     (let intensity = intensity_of random;
          hex = padStart 2 CHR ''0'' (toString16 intensity)
      in ''#'' @ hex @ hex @ hex)"

definition is_hex_digit :: "char \<Rightarrow> bool" where
  "is_hex_digit c = (c \<in> set ''0123456789abcdef'')"

text \<open>
  Doubles for the concrete instances: zero, the largest double below 1, the double
  \<^verbatim>\<open>0.5019607843137255\<close> next to \<open>128/255\<close> and the double \<^verbatim>\<open>0.00392156862745098\<close> next to
  \<open>1/255\<close>; the exact products of the last two with 255 lie just below 128 and 1 and
  round up to them.
\<close>

definition double_zero :: double where
  "double_zero = (0, - 1074)"

definition double_below_one :: double where
  "double_below_one = (9007199254740991, - 53)"

definition double_near_half :: double where
  "double_near_half = (282578800148737, - 49)"

definition double_near_255th :: double where
  "double_near_255th = (4521260802379792, - 60)"

section \<open>Properties of the pure functions\<close>

text \<open>
  Rounding. The digits dropped are at most 8, since the exact product of a significand
  with 255 has at most 61 binary digits, and rounding to nearest moves the value up by
  at most half a unit of the last digit kept.
\<close>

lemma bit_length_le: "n < 2 ^ j \<Longrightarrow> bit_length n \<le> j"
proof (induction j arbitrary: n)
  case 0
  then show ?case by (simp add: bit_length.simps)
next
  case (Suc j)
  show ?case
  proof (cases "n = 0")
    case True
    then show ?thesis by (simp add: bit_length.simps)
  next
    case False
    from Suc.prems have "n div 2 < 2 ^ j" by simp
    then have "bit_length (n div 2) \<le> j" by (rule Suc.IH)
    with False show ?thesis by (subst bit_length.simps) simp
  qed
qed

lemma round_half_even_upper: "2 * (round_half_even M k * 2 ^ k) \<le> 2 * M + 2 ^ k"
proof -
  let ?q = "M div 2 ^ k" and ?r = "M mod 2 ^ k"
  have M: "?q * 2 ^ k + ?r = M" by (rule div_mult_mod_eq)
  show ?thesis
  proof (cases "round_half_even M k = ?q")
    case True
    have "?q * 2 ^ k \<le> M" using M by linarith
    then have "2 * (?q * 2 ^ k) \<le> 2 * M + 2 ^ k" by linarith
    with True show ?thesis by (simp only:)
  next
    case False
    then have up: "round_half_even M k = ?q + 1" and half: "2 ^ k \<le> 2 * ?r"
      by (auto simp: round_half_even_def Let_def split: if_splits)
    have "2 * ((?q + 1) * 2 ^ k) = 2 * (?q * 2 ^ k) + 2 ^ k + 2 ^ k" by (simp add: algebra_simps)
    also have "\<dots> \<le> 2 * (?q * 2 ^ k) + 2 * ?r + 2 ^ k" using half by simp
    also have "\<dots> = 2 * M + 2 ^ k" using M by linarith
    finally show ?thesis using up by simp
  qed
qed

text \<open>
  The rounded value is a nearest one and its significand fits: it differs from the exact
  value by at most half a unit of the last digit kept, the significand is below \<open>2^53\<close>
  and the exponent at least \<open>-1074\<close>.
\<close>

lemma round_half_even_lower: "2 * M \<le> 2 * (round_half_even M k * 2 ^ k) + 2 ^ k"
proof -
  let ?q = "M div 2 ^ k" and ?r = "M mod 2 ^ k"
  have M: "?q * 2 ^ k + ?r = M" by (rule div_mult_mod_eq)
  have r: "?r < 2 ^ k" by simp
  show ?thesis
  proof (cases "round_half_even M k = ?q")
    case True
    then have "2 * ?r \<le> 2 ^ k"
      by (auto simp: round_half_even_def Let_def split: if_splits)
    with M have "2 * M \<le> 2 * (?q * 2 ^ k) + 2 ^ k" by linarith
    with True show ?thesis by (simp only:)
  next
    case False
    then have up: "round_half_even M k = ?q + 1"
      by (auto simp: round_half_even_def Let_def split: if_splits)
    have "2 * ((?q + 1) * 2 ^ k) = 2 * (?q * 2 ^ k) + 2 ^ k + 2 ^ k" by (simp add: algebra_simps)
    with M r have "2 * M \<le> 2 * ((?q + 1) * 2 ^ k) + 2 ^ k" by linarith
    with up show ?thesis by (simp only:)
  qed
qed

lemma bit_length_bound: "n < 2 ^ bit_length n"
proof (induction n rule: bit_length.induct)
  case (1 n)
  show ?case
  proof (cases "n = 0")
    case True
    then show ?thesis by simp
  next
    case False
    with "1.IH" have "n div 2 < 2 ^ bit_length (n div 2)" by simp
    then have "n < 2 * 2 ^ bit_length (n div 2)" by linarith
    with False show ?thesis by (subst bit_length.simps) simp
  qed
qed

lemma round_half_even_le: "M < 2 ^ (k + j) \<Longrightarrow> round_half_even M k \<le> 2 ^ j"
proof -
  assume "M < 2 ^ (k + j)"
  then have "M < 2 ^ j * 2 ^ k" by (simp add: power_add mult.commute)
  then have "M div 2 ^ k < 2 ^ j" by (simp add: div_less_iff_less_mult)
  moreover have "round_half_even M k \<le> M div 2 ^ k + 1"
    by (simp add: round_half_even_def Let_def)
  ultimately show ?thesis by linarith
qed

lemma round_double_fits:
  "fst (round_double M E) < 2 ^ 53 \<and> - 1074 \<le> snd (round_double M E)"
proof -
  define k where "k = nat (max (int (bit_length M) - 53) (- 1074 - E))"
  have "bit_length M \<le> k + 53" by (simp add: k_def)
  then have "(2::nat) ^ bit_length M \<le> 2 ^ (k + 53)" by (intro power_increasing) simp_all
  with bit_length_bound [of M] have "M < 2 ^ (k + 53)" by linarith
  then have q: "round_half_even M k \<le> 2 ^ 53" by (rule round_half_even_le)
  have e: "- 1074 \<le> E + int k" unfolding k_def by (auto simp: max_def)
  show ?thesis
  proof (cases "round_half_even M k = 2 ^ 53")
    case True
    with e show ?thesis by (simp add: round_double_def k_def [symmetric] Let_def)
  next
    case False
    with q have "round_half_even M k < 2 ^ 53" by linarith
    with False e show ?thesis by (simp add: round_double_def k_def [symmetric] Let_def)
  qed
qed

lemma round_half_even_zero: "round_half_even 0 k = 0"
  by (simp add: round_half_even_def)

lemma Math_floor_nonneg: "0 \<le> Math_floor x"
  by (simp add: Math_floor_def pos_imp_zdiv_nonneg_iff)

text \<open>The floor of \<open>q * 2^(k - a)\<close> is below \<open>c\<close> when \<open>q * 2^k\<close> is below \<open>c * 2^a\<close>.\<close>

lemma Math_floor_less:
  assumes "q * 2 ^ k < c * 2 ^ a"
  shows "Math_floor (q, int k - int a) < int c"
proof (cases "a \<le> k")
  case True
  then have "q * 2 ^ k = (q * 2 ^ (k - a)) * 2 ^ a"
    by (simp add: power_add [symmetric])
  with assms have "q * 2 ^ (k - a) < c" by simp
  then have "int q * 2 ^ (k - a) < int c"
    by (metis of_nat_less_iff of_nat_mult of_nat_numeral of_nat_power)
  moreover from True have "nat (int k - int a) = k - a" by simp
  ultimately show ?thesis using True by (simp add: Math_floor_def)
next
  case False
  then have "c * 2 ^ a = (c * 2 ^ (a - k)) * 2 ^ k"
    by (simp add: power_add [symmetric])
  with assms have "q < c * 2 ^ (a - k)" by simp
  then have "q div 2 ^ (a - k) < c"
    by (simp add: div_less_iff_less_mult)
  then have "int q div 2 ^ (a - k) < int c"
    by (metis of_nat_less_iff of_nat_div of_nat_numeral of_nat_power)
  moreover from False have "nat (- (int k - int a)) = a - k" by simp
  ultimately show ?thesis using False by (simp add: Math_floor_def)
qed

text \<open>A double below 1 is zero, or has a negative exponent \<open>e\<close> and a significand below \<open>2^(-e)\<close>.\<close>

lemma below_one:
  assumes "double_value x < 1"
  shows "fst x = 0 \<or> (snd x < 0 \<and> fst x < 2 ^ nat (- snd x))"
proof (cases "0 \<le> snd x")
  case True
  have "(1::real) \<le> 2 ^ nat (snd x)" by simp
  show ?thesis
  proof (rule ccontr)
    assume "\<not> ?thesis"
    then have "1 \<le> real (fst x)" by simp
    with \<open>(1::real) \<le> 2 ^ nat (snd x)\<close> have "1 * 1 \<le> real (fst x) * 2 ^ nat (snd x)"
      by (intro mult_mono) simp_all
    with assms True show False by (simp add: double_value_def)
  qed
next
  case False
  with assms have "real (fst x) / 2 ^ nat (- snd x) < 1" by (simp add: double_value_def)
  then have "real (fst x) < 2 ^ nat (- snd x)" by (simp add: divide_less_eq)
  then have "fst x < 2 ^ nat (- snd x)"
    by (metis of_nat_less_iff of_nat_numeral of_nat_power)
  with False show ?thesis by simp
qed

text \<open>
  The intensity of a double below 1 is at most 254: with \<open>m < 2^a\<close> the exact product is
  at most \<open>255 * 2^a - 255\<close> in units of \<open>2^(-a)\<close>, and rounding adds at most 128 of them.
\<close>

lemma intensity_of_range:
  assumes "is_double x" and "double_value x < 1"
  shows "0 \<le> intensity_of x" and "intensity_of x \<le> 254"
proof -
  show "0 \<le> intensity_of x" by (simp add: intensity_of_def Math_floor_nonneg)
  obtain m e where x: "x = (m, e)" by (cases x)
  from assms(1) x have m: "m < 2 ^ 53" and e: "- 1074 \<le> e" by (simp_all add: is_double_def)
  define M where "M = m * 255"
  define k where "k = nat (max (int (bit_length M) - 53) (- 1074 - e))"
  define q where "q = round_half_even M k"
  have prod: "double_mul x (255, 0) = (if q = 2 ^ 53 then (2 ^ 52, e + int k + 1) else (q, e + int k))"
    by (simp add: double_mul_def round_double_def x M_def k_def q_def Let_def)
  from below_one [OF assms(2)] x have "m = 0 \<or> (e < 0 \<and> m < 2 ^ nat (- e))" by simp
  then show "intensity_of x \<le> 254"
  proof
    assume "m = 0"
    then have "q = 0" by (simp add: q_def M_def round_half_even_zero)
    with prod show ?thesis by (simp add: intensity_of_def Math_floor_def)
  next
    assume neg: "e < 0 \<and> m < 2 ^ nat (- e)"
    define a where "a = nat (- e)"
    from neg have ea: "e = - int a" and ma: "m < 2 ^ a" by (simp_all add: a_def)
    from m have "M < 2 ^ 53 * 2 ^ 8" by (simp add: M_def)
    then have "M < 2 ^ 61" by simp
    then have "bit_length M \<le> 61" by (rule bit_length_le)
    with e have k8: "k \<le> 8" by (simp add: k_def)
    then have "(2::nat) ^ k \<le> 2 ^ 8" by (intro power_increasing) simp_all
    then have pk: "(2::nat) ^ k \<le> 256" by simp
    from ma have "Suc m \<le> 2 ^ a" by simp
    then have "255 * Suc m \<le> 255 * 2 ^ a" by (rule mult_le_mono2)
    then have Mle: "M + 255 \<le> 255 * 2 ^ a" by (simp add: M_def)
    have "2 * (q * 2 ^ k) \<le> 2 * M + 2 ^ k" unfolding q_def by (rule round_half_even_upper)
    with pk Mle have qk: "q * 2 ^ k < 255 * 2 ^ a" by linarith
    show ?thesis
    proof (cases "q = 2 ^ 53")
      case True
      with qk have "2 ^ 52 * 2 ^ (Suc k) < 255 * (2::nat) ^ a" by simp
      then have "Math_floor (2 ^ 52, int (Suc k) - int a) < int 255" by (rule Math_floor_less)
      moreover from True prod ea have "double_mul x (255, 0) = (2 ^ 52, int (Suc k) - int a)"
        by simp
      ultimately show ?thesis by (simp add: intensity_of_def)
    next
      case False
      from qk have "Math_floor (q, int k - int a) < int 255" by (rule Math_floor_less)
      moreover from False prod ea have "double_mul x (255, 0) = (q, int k - int a)" by simp
      ultimately show ?thesis by (simp add: intensity_of_def)
    qed
  qed
qed

text \<open>The intensities of the example doubles, by evaluation.\<close>

lemmas double_defs = intensity_of_def double_mul_def round_double_def round_half_even_def
  Math_floor_def is_double_def double_value_def bit_length.simps

lemma intensity_of_double_zero:
  "is_double double_zero \<and> double_value double_zero = 0 \<and> intensity_of double_zero = 0"
  by (simp add: double_zero_def double_defs)

lemma intensity_of_double_below_one:
  "is_double double_below_one \<and> double_value double_below_one < 1 \<and>
   double_mul double_below_one (255, 0) = (8972014882652159, - 45) \<and>
   intensity_of double_below_one = 254"
  by (simp add: double_below_one_def double_defs)

lemma intensity_of_double_near_half:
  "is_double double_near_half \<and> double_value double_near_half < 1 \<and>
   double_mul double_near_half (255, 0) = (2 ^ 52, - 45) \<and>
   intensity_of double_near_half = 128"
  by (simp add: double_near_half_def double_defs)

lemma intensity_of_double_near_255th:
  "is_double double_near_255th \<and> double_value double_near_255th < 1 \<and>
   intensity_of double_near_255th = 1"
  by (simp add: double_near_255th_def double_defs)

lemma below_16_cases:
  "(d::nat) < 16 \<Longrightarrow> d \<in> {0, 1, 2, 3, 4, 5, 6, 7, 8, 9, 10, 11, 12, 13, 14, 15}"
  by simp arith

lemma hex_digit_is_hex: "d < 16 \<Longrightarrow> is_hex_digit (hex_digit d)"
  using below_16_cases [of d] by (auto simp: hex_digit_def is_hex_digit_def)

lemma hex_digit_f: "d < 16 \<Longrightarrow> hex_digit d = CHR ''f'' \<Longrightarrow> d = 15"
  using below_16_cases [of d] by (auto simp: hex_digit_def)

lemma gray_white_digits:
  "[CHR ''#'', a, b, a, b, a, b] = ''#ffffff'' \<Longrightarrow> a = CHR ''f'' \<and> b = CHR ''f''"
  by simp

lemma digits16_small: "n < 16 \<Longrightarrow> digits16 n = [hex_digit n]"
  by (simp add: digits16.simps)

lemma digits16_byte:
  "16 \<le> n \<Longrightarrow> n < 256 \<Longrightarrow> digits16 n = [hex_digit (n div 16), hex_digit (n mod 16)]"
proof -
  assume a: "16 \<le> n" and b: "n < 256"
  from b have "n div 16 < 16" by simp
  then have "digits16 (n div 16) = [hex_digit (n div 16)]" by (rule digits16_small)
  with a show ?thesis by (subst digits16.simps) simp
qed

lemma hex_of_byte:
  assumes "n < 256"
  shows "padStart 2 CHR ''0'' (toString16 (int n)) = [hex_digit (n div 16), hex_digit (n mod 16)]"
proof (cases "n < 16")
  case True
  then show ?thesis
    by (simp add: toString16_def padStart_def digits16_small hex_digit_def)
next
  case False
  with assms show ?thesis
    by (simp add: toString16_def padStart_def digits16_byte)
qed

lemma getRandomGray_shape:
  assumes "is_double x" and "double_value x < 1"
  shows "getRandomGray x =
      (let n = nat (intensity_of x); h = hex_digit (n div 16); l = hex_digit (n mod 16)
       in [CHR ''#'', h, l, h, l, h, l])"
    and "nat (intensity_of x) < 255"
proof -
  from intensity_of_range [OF assms] have r: "0 \<le> intensity_of x" "intensity_of x \<le> 254"
    by simp_all
  then show lt: "nat (intensity_of x) < 255" by simp
  then have "nat (intensity_of x) < 256" by simp
  from hex_of_byte [OF this] r(1) show "getRandomGray x =
      (let n = nat (intensity_of x); h = hex_digit (n div 16); l = hex_digit (n mod 16)
       in [CHR ''#'', h, l, h, l, h, l])"
    by (simp add: getRandomGray_def Let_def)
qed

lemma getRandomGray_of_intensity:
  "intensity_of x = int n \<Longrightarrow> n < 256 \<Longrightarrow>
   getRandomGray x = [CHR ''#'', hex_digit (n div 16), hex_digit (n mod 16), hex_digit (n div 16),
     hex_digit (n mod 16), hex_digit (n div 16), hex_digit (n mod 16)]"
  using hex_of_byte [of n] by (simp add: getRandomGray_def Let_def)

text \<open>
  C3. For every value of the random source, a double at least 0 and below 1,
  \<^verbatim>\<open>Pure.getRandomGray\<close> returns \<^verbatim>\<open>#\<close> followed by exactly six lowercase hexadecimal digits
  that form three identical two-digit pairs: a gray, with R = G = B.
\<close>

theorem getRandomGray_is_gray:
  assumes "is_double x" and "double_value x < 1"
  shows "\<exists>h l. is_hex_digit h \<and> is_hex_digit l \<and> getRandomGray x = [CHR ''#'', h, l, h, l, h, l]"
proof -
  let ?n = "nat (intensity_of x)"
  from getRandomGray_shape [OF assms]
  have shape: "getRandomGray x =
      [CHR ''#'', hex_digit (?n div 16), hex_digit (?n mod 16), hex_digit (?n div 16),
       hex_digit (?n mod 16), hex_digit (?n div 16), hex_digit (?n mod 16)]"
    and lt: "?n < 255"
    by (simp_all add: Let_def)
  from lt have "?n div 16 < 16" by simp
  then have h: "is_hex_digit (hex_digit (?n div 16))" by (rule hex_digit_is_hex)
  have "?n mod 16 < 16" by simp
  then have l: "is_hex_digit (hex_digit (?n mod 16))" by (rule hex_digit_is_hex)
  from h l shape show ?thesis by blast
qed

theorem getRandomGray_is_gray_witness:
  "is_double double_near_half \<and> double_value double_near_half < 1 \<and>
   getRandomGray double_near_half = ''#808080'' \<and>
   (\<exists>h l. is_hex_digit h \<and> is_hex_digit l \<and>
      getRandomGray double_near_half = [CHR ''#'', h, l, h, l, h, l])"
proof -
  from intensity_of_double_near_half
  have a: "is_double double_near_half" and b: "double_value double_near_half < 1"
    and i: "intensity_of double_near_half = int 128"
    by simp_all
  from getRandomGray_of_intensity [OF i] have g: "getRandomGray double_near_half = ''#808080''"
    by (simp add: hex_digit_def)
  from getRandomGray_is_gray [OF a b] a b g show ?thesis by simp
qed

text \<open>
  C10. The gray intensity is an integer from 0 to 254 for every double at least 0 and
  below 1: the rounded product with 255 never reaches 255. So pure white \<^verbatim>\<open>#ffffff\<close> is
  never returned, while pure black \<^verbatim>\<open>#000000\<close> is a possible output (at the random
  value 0).
\<close>

theorem getRandomGray_never_white:
  assumes "is_double x" and "double_value x < 1"
  shows "0 \<le> intensity_of x \<and> intensity_of x \<le> 254 \<and> getRandomGray x \<noteq> ''#ffffff'' \<and>
         is_double double_zero \<and> double_value double_zero < 1 \<and>
         getRandomGray double_zero = ''#000000''"
proof -
  let ?n = "nat (intensity_of x)"
  from getRandomGray_shape [OF assms]
  have shape: "getRandomGray x =
      [CHR ''#'', hex_digit (?n div 16), hex_digit (?n mod 16), hex_digit (?n div 16),
       hex_digit (?n mod 16), hex_digit (?n div 16), hex_digit (?n mod 16)]"
    and lt: "?n < 255"
    by (simp_all add: Let_def)
  have white: "getRandomGray x \<noteq> ''#ffffff''"
  proof
    assume w: "getRandomGray x = ''#ffffff''"
    from shape [symmetric] w
    have "[CHR ''#'', hex_digit (?n div 16), hex_digit (?n mod 16), hex_digit (?n div 16),
       hex_digit (?n mod 16), hex_digit (?n div 16), hex_digit (?n mod 16)] = ''#ffffff''"
      by (rule trans)
    from gray_white_digits [OF this]
    have hi: "hex_digit (?n div 16) = CHR ''f''" and lo: "hex_digit (?n mod 16) = CHR ''f''"
      by blast+
    from lt have "?n div 16 < 16" by simp
    from hex_digit_f [OF this hi] have d: "?n div 16 = 15" .
    have "?n mod 16 < 16" by simp
    from hex_digit_f [OF this lo] have m: "?n mod 16 = 15" .
    have "?n = 16 * (?n div 16) + ?n mod 16" by simp
    with d m have "?n = 255" by simp
    with lt show False by simp
  qed
  from intensity_of_double_zero
  have z: "is_double double_zero" "double_value double_zero < 1" "intensity_of double_zero = int 0"
    by simp_all
  from getRandomGray_of_intensity [OF z(3)] have black: "getRandomGray double_zero = ''#000000''"
    by (simp add: hex_digit_def)
  from intensity_of_range [OF assms] white z(1) z(2) black show ?thesis by simp
qed

theorem getRandomGray_never_white_witness:
  "is_double double_below_one \<and> double_value double_below_one < 1 \<and>
   intensity_of double_below_one = 254 \<and> getRandomGray double_below_one = ''#fefefe'' \<and>
   getRandomGray double_below_one \<noteq> ''#ffffff''"
proof -
  from intensity_of_double_below_one
  have a: "is_double double_below_one" and b: "double_value double_below_one < 1"
    and i: "intensity_of double_below_one = int 254"
    by simp_all
  from getRandomGray_of_intensity [OF i] have g: "getRandomGray double_below_one = ''#fefefe''"
    by (simp add: hex_digit_def)
  from getRandomGray_never_white [OF a b] a b i g show ?thesis by simp
qed

section \<open>Frame lemmas\<close>

text \<open>
  What each modal function does to the overlay's class list and to the body's overflow
  style, whether it returns or throws. \<^verbatim>\<open>alert\<close> and \<^verbatim>\<open>confirm\<close> leave the two as they
  are or as \<^verbatim>\<open>open\<close> leaves them.
\<close>

lemma snd_and_then:
  "snd (and_then r f) = (case fst r of Inl e \<Rightarrow> snd r | Inr a \<Rightarrow> snd (f a (snd r)))"
  by (cases r) (simp add: and_then_def split: sum.split)

lemma fst_and_then:
  "fst (and_then r f) = (case fst r of Inl e \<Rightarrow> Inl e | Inr a \<Rightarrow> fst (f a (snd r)))"
  by (cases r) (simp add: and_then_def split: sum.split)

lemma Log_styled_frame:
  "modal_element (Log_styled m a s) = modal_element s"
  "modal_content (Log_styled m a s) = modal_content s"
  "body_overflow (Log_styled m a s) = body_overflow s"
  by (simp_all add: Log_styled_def split: option.split prod.split)

lemma Log_shortcut_frame:
  "modal_element (snd (Log_shortcut m a s)) = modal_element s"
  "modal_content (snd (Log_shortcut m a s)) = modal_content s"
  "body_overflow (snd (Log_shortcut m a s)) = body_overflow s"
  by (simp_all add: Log_shortcut_def Log_styled_frame)

lemma open_element:
  "modal_element (snd (Modal_open c s)) = DOM_addClass (modal_element s) ''modal--active''"
  by (simp add: Modal_open_def Log_red_def Log_gray_def Log_shortcut_frame DOM_lockScroll_def
      DOM_addClass_def Let_def split: content.split jsval.split)

lemma open_overflow:
  "body_overflow (snd (Modal_open c s)) =
     (if modal_element s = None then body_overflow s else ''hidden'')"
  by (simp add: Modal_open_def Log_red_def Log_gray_def Log_shortcut_frame DOM_lockScroll_def Let_def)

lemma close_element:
  "modal_element (snd (Modal_close s)) = DOM_removeClass (modal_element s) ''modal--active''"
  by (simp add: Modal_close_def Log_gray_def Log_shortcut_frame DOM_unlockScroll_def
      DOM_removeClass_def Let_def)

lemma close_overflow:
  "body_overflow (snd (Modal_close s)) = (if modal_element s = None then body_overflow s else [])"
  by (simp add: Modal_close_def Log_gray_def Log_shortcut_frame DOM_unlockScroll_def Let_def)

lemma close_content: "modal_content (snd (Modal_close s)) = modal_content s"
  by (simp add: Modal_close_def Log_gray_def Log_shortcut_frame DOM_unlockScroll_def Let_def)

lemma ui_open:
  "ui (snd (Modal_open c s)) =
     (DOM_addClass (modal_element s) ''modal--active'',
      if modal_element s = None then body_overflow s else ''hidden'')"
  by (simp add: ui_def open_element open_overflow)

lemma ui_close:
  "ui (snd (Modal_close s)) =
     (DOM_removeClass (modal_element s) ''modal--active'',
      if modal_element s = None then body_overflow s else [])"
  by (simp add: ui_def close_element close_overflow)

lemma ui_listen_on: "ui (listen_on b l s) = ui s"
  by (simp add: ui_def listen_on_def split: option.split)

lemma ui_getTemplate: "ui (snd (DOM_getTemplate i s)) = ui s"
  by (simp add: ui_def DOM_getTemplate_def split: option.split)

lemma ui_alert:
  "ui (snd (Modal_alert t m s)) = ui s \<or>
   ui (snd (Modal_alert t m s)) = ui (snd (Modal_open (Value JNull) s))"
proof (cases "templates s ''modal-alert''")
  case None
  then show ?thesis by (simp add: Modal_alert_def DOM_getTemplate_def ui_def)
next
  case (Some content)
  then show ?thesis
    by (simp add: Modal_alert_def DOM_getTemplate_def snd_and_then ui_listen_on ui_open
        split: sum.split)
qed

lemma ui_confirm:
  "ui (snd (Modal_confirm t m k s)) = ui s \<or>
   ui (snd (Modal_confirm t m k s)) = ui (snd (Modal_open (Value JNull) s))"
proof (cases "templates s ''modal-confirm''")
  case None
  then show ?thesis by (simp add: Modal_confirm_def DOM_getTemplate_def ui_def)
next
  case (Some content)
  then show ?thesis
    by (simp add: Modal_confirm_def DOM_getTemplate_def snd_and_then ui_listen_on ui_open
        split: sum.split)
qed

section \<open>Evaluation of the example pages\<close>

text \<open>The definitions to unfold when a function is run on one of the example pages.\<close>

lemmas log_defs = Log_red_def Log_gray_def Log_white_def Log_shortcut_def Log_styled_def
  Log_active_def Log_styles_def

lemmas dom_defs = DOM_clear_def DOM_setHTML_def DOM_append_def DOM_addClass_def
  DOM_removeClass_def DOM_hasClass_def DOM_get_def DOM_getTemplate_def DOM_lockScroll_def
  DOM_unlockScroll_def DOM_setStyle_def classList_add_def classList_remove_def

lemmas modal_defs = Modal_open_def Modal_close_def Modal_isOpen_def Modal_alert_def
  Modal_confirm_def Modal_init_click_def Modal_init_keydown_def fill_slot_def listen_on_def
  and_then_def

lemmas page_defs = demo_page_def alert_template_def confirm_template_def

lemma open_page_eval:
  "open_page = demo_page\<lparr>templates := Map.empty, modal_content := Some [Text ''hello''],
       modal_element := Some [''modal'', ''modal--active''], body_overflow := ''hidden'',
       console := [Console_log ''gray'' [Text_arg ''Modal opened'']]\<rparr>"
  by (simp add: open_page_def page_defs modal_defs dom_defs log_defs)

section \<open>Open, close and isOpen\<close>

lemma isOpen_after_open:
  "modal_element s \<noteq> None \<Longrightarrow> Modal_isOpen (snd (Modal_open c s)) = JBool True"
  by (auto simp: Modal_isOpen_def open_element DOM_addClass_def DOM_hasClass_def classList_add_def)

lemma isOpen_after_close:
  "modal_element s \<noteq> None \<Longrightarrow> Modal_isOpen (snd (Modal_close s)) = JBool False"
  by (auto simp: Modal_isOpen_def close_element DOM_removeClass_def DOM_hasClass_def
      classList_remove_def)

lemma ui_init_click:
  "ui (snd (Modal_init_click p s)) = ui s \<or> ui (snd (Modal_init_click p s)) = ui (snd (Modal_close s))"
  by (simp add: Modal_init_click_def)

lemma ui_init_keydown:
  "ui (snd (Modal_init_keydown k s)) = ui s \<or>
   ui (snd (Modal_init_keydown k s)) = ui (snd (Modal_close s))"
  by (simp add: Modal_init_keydown_def)

lemma ui_step:
  "ui (step x s) = ui s \<or> ui (step x s) = ui (snd (Modal_open (Value JNull) s)) \<or>
   ui (step x s) = ui (snd (Modal_close s))"
proof (cases x)
  case (Op_open c)
  then show ?thesis by (simp add: ui_open)
next
  case Op_close
  then show ?thesis by simp
next
  case (Op_alert t m)
  with ui_alert [of t m s] show ?thesis by auto
next
  case (Op_confirm t m k)
  with ui_confirm [of t m k s] show ?thesis by auto
next
  case (Ev_background_click p)
  with ui_init_click [of p s] show ?thesis by auto
next
  case Ev_close_click
  then show ?thesis by simp
next
  case (Ev_keydown k)
  with ui_init_keydown [of k s] show ?thesis by auto
qed

lemma step_keeps_absent: "modal_element s = None \<Longrightarrow> modal_element (step x s) = None"
  using ui_step [of x s]
  by (auto simp: ui_def open_element close_element DOM_addClass_def DOM_removeClass_def)

lemma step_keeps_present: "modal_element s \<noteq> None \<Longrightarrow> modal_element (step x s) \<noteq> None"
  using ui_step [of x s]
  by (auto simp: ui_def open_element close_element DOM_addClass_def DOM_removeClass_def)

lemma run_keeps_absent: "modal_element s = None \<Longrightarrow> modal_element (run xs s) = None"
  by (induction xs arbitrary: s) (simp_all add: step_keeps_absent)

lemma run_snoc: "run (xs @ [x]) s = step x (run xs s)"
  by (induction xs arbitrary: s) simp_all

lemma run_keeps_present: "modal_element s \<noteq> None \<Longrightarrow> modal_element (run xs s) \<noteq> None"
proof (induction xs arbitrary: s)
  case Nil
  then show ?case by simp
next
  case (Cons x xs)
  from Cons.prems have "modal_element (step x s) \<noteq> None" by (rule step_keeps_present)
  then have "modal_element (run xs (step x s)) \<noteq> None" by (rule Cons.IH)
  then show ?case by simp
qed

lemma isOpen_after_step:
  "modal_element s \<noteq> None \<Longrightarrow> open_or_close x \<Longrightarrow> Modal_isOpen (step x s) = JBool (is_open x)"
  by (cases x) (simp_all add: isOpen_after_open isOpen_after_close)

text \<open>
  C1. For every sequence of \<^verbatim>\<open>Modal.open\<close> and \<^verbatim>\<open>Modal.close\<close> calls on a page whose
  overlay root is present, \<^verbatim>\<open>Modal.isOpen()\<close> returns true exactly when the most recent
  call was \<^verbatim>\<open>open\<close>. When the overlay root is absent, \<^verbatim>\<open>isOpen()\<close> reports false after
  any sequence of operations: it returns \<^verbatim>\<open>null\<close>, the value of \<^verbatim>\<open>Modal.$.element\<close>, which
  is falsy.
\<close>

theorem isOpen_reflects_last_call:
  "(modal_element s \<noteq> None \<longrightarrow> xs \<noteq> [] \<longrightarrow> list_all open_or_close xs \<longrightarrow>
      Modal_isOpen (run xs s) = JBool (is_open (last xs))) \<and>
   (modal_element s = None \<longrightarrow>
      Modal_isOpen (run ys s) = JNull \<and> \<not> truthy (Modal_isOpen (run ys s)))"
proof (intro conjI impI)
  assume present: "modal_element s \<noteq> None" and ne: "xs \<noteq> []" and oc: "list_all open_or_close xs"
  from ne obtain zs x where xs: "xs = zs @ [x]"
    by (cases xs rule: rev_cases) auto
  from present have "modal_element (run zs s) \<noteq> None" by (rule run_keeps_present)
  moreover from oc xs have "open_or_close x" by simp
  ultimately have "Modal_isOpen (step x (run zs s)) = JBool (is_open x)"
    by (rule isOpen_after_step)
  with xs show "Modal_isOpen (run xs s) = JBool (is_open (last xs))"
    by (simp add: run_snoc)
next
  assume "modal_element s = None"
  then have "modal_element (run ys s) = None" by (rule run_keeps_absent)
  then show "Modal_isOpen (run ys s) = JNull" by (simp add: Modal_isOpen_def)
  then show "\<not> truthy (Modal_isOpen (run ys s))" by simp
qed

theorem isOpen_reflects_last_call_witness:
  "modal_element demo_page \<noteq> None \<and>
   list_all open_or_close [Op_open (Value (JString ''hello'')), Op_close, Op_open (Fragment alert_template)] \<and>
   Modal_isOpen (run [Op_open (Value (JString ''hello'')), Op_close, Op_open (Fragment alert_template)]
     demo_page) = JBool True \<and>
   list_all open_or_close [Op_open (Value (JString ''hello'')), Op_close] \<and>
   Modal_isOpen (run [Op_open (Value (JString ''hello'')), Op_close] demo_page) = JBool False \<and>
   modal_element bare_page = None \<and>
   Modal_isOpen (run [Op_open (Value (JString ''hello'')), Op_alert ''a'' ''b''] bare_page) = JNull"
  using isOpen_reflects_last_call [of demo_page
      "[Op_open (Value (JString ''hello'')), Op_close, Op_open (Fragment alert_template)]" "[]"]
    isOpen_reflects_last_call [of demo_page "[Op_open (Value (JString ''hello'')), Op_close]" "[]"]
    isOpen_reflects_last_call [of bare_page "[]"
      "[Op_open (Value (JString ''hello'')), Op_alert ''a'' ''b'']"]
  by (simp add: demo_page_def bare_page_def)

section \<open>Scroll lock\<close>

lemma in_classList_add: "c \<in> set (classList_add c cs)"
  by (simp add: classList_add_def)

lemma lock_ok_open: "lock_ok (ui s) \<Longrightarrow> lock_ok (ui (snd (Modal_open c s)))"
proof (cases "modal_element s")
  case None
  moreover assume "lock_ok (ui s)"
  ultimately show ?thesis
    by (simp add: lock_ok_def ui_def open_element open_overflow DOM_addClass_def)
next
  case (Some cs)
  then show ?thesis
    by (simp add: lock_ok_def ui_def open_element open_overflow DOM_addClass_def in_classList_add)
qed

lemma lock_ok_close: "lock_ok (ui s) \<Longrightarrow> lock_ok (ui (snd (Modal_close s)))"
  by (auto simp: lock_ok_def ui_def close_element close_overflow DOM_removeClass_def)

lemma lock_ok_step: "lock_ok (ui s) \<Longrightarrow> lock_ok (ui (step x s))"
  using ui_step [of x s] lock_ok_open [of s "Value JNull"] lock_ok_close [of s] by auto

lemma lock_ok_run: "lock_ok (ui s) \<Longrightarrow> lock_ok (ui (run xs s))"
  by (induction xs arbitrary: s) (simp_all add: lock_ok_step)

lemma lock_ok_isOpen: "lock_ok (ui s) \<Longrightarrow> scroll_locked s \<Longrightarrow> Modal_isOpen s = JBool True"
  by (auto simp: lock_ok_def ui_def scroll_locked_def Modal_isOpen_def DOM_hasClass_def)

text \<open>
  C6. Every call to \<^verbatim>\<open>Modal.close()\<close> leaves the scroll lock released, whatever state
  the modal was in and whichever path called it; and after any sequence of modal
  operations and dismissal events, starting from a page that is not scroll-locked, the
  lock is held only while the modal is open. When the overlay root is present the
  release is unconditional: \<^verbatim>\<open>close\<close> sets the body's overflow style to the empty string
  in every state.
\<close>

theorem close_releases_scroll_lock:
  assumes "\<not> scroll_locked s0"
  shows "\<not> scroll_locked (snd (Modal_close (run xs s0))) \<and>
         (scroll_locked (run xs s0) \<longrightarrow> Modal_isOpen (run xs s0) = JBool True) \<and>
         (modal_element s \<noteq> None \<longrightarrow> body_overflow (snd (Modal_close s)) = [])"
proof -
  from assms have "lock_ok (ui s0)" by (simp add: lock_ok_def ui_def scroll_locked_def)
  then have inv: "lock_ok (ui (run xs s0))" by (rule lock_ok_run)
  have a: "\<not> scroll_locked (snd (Modal_close (run xs s0)))"
  proof (cases "modal_element (run xs s0)")
    case None
    with inv have "\<not> scroll_locked (run xs s0)"
      by (auto simp: lock_ok_def ui_def scroll_locked_def)
    with None show ?thesis by (simp add: scroll_locked_def close_overflow)
  next
    case (Some cs)
    then show ?thesis by (simp add: scroll_locked_def close_overflow)
  qed
  from inv have b: "scroll_locked (run xs s0) \<longrightarrow> Modal_isOpen (run xs s0) = JBool True"
    by (simp add: lock_ok_isOpen)
  have c: "modal_element s \<noteq> None \<longrightarrow> body_overflow (snd (Modal_close s)) = []"
    by (simp add: close_overflow)
  from a b c show ?thesis by simp
qed

theorem close_releases_scroll_lock_witness:
  "\<not> scroll_locked demo_page \<and>
   scroll_locked (run [Op_confirm ''Change color?'' ''Sure?'' 0] demo_page) \<and>
   Modal_isOpen (run [Op_confirm ''Change color?'' ''Sure?'' 0] demo_page) = JBool True \<and>
   \<not> scroll_locked (snd (Modal_close (run [Op_confirm ''Change color?'' ''Sure?'' 0] demo_page))) \<and>
   \<not> scroll_locked (run [Op_confirm ''Change color?'' ''Sure?'' 0, Ev_keydown ''Escape''] demo_page) \<and>
   modal_element open_page \<noteq> None \<and> body_overflow (snd (Modal_close open_page)) = []"
proof -
  have a: "\<not> scroll_locked demo_page"
    by (simp add: scroll_locked_def demo_page_def)
  have b: "scroll_locked (run [Op_confirm ''Change color?'' ''Sure?'' 0] demo_page)"
    by (simp add: scroll_locked_def page_defs modal_defs dom_defs log_defs)
  have c: "\<not> scroll_locked (run [Op_confirm ''Change color?'' ''Sure?'' 0, Ev_keydown ''Escape''] demo_page)"
    by (simp add: scroll_locked_def page_defs modal_defs dom_defs log_defs)
  have d: "modal_element open_page \<noteq> None"
    by (simp add: open_page_eval)
  from close_releases_scroll_lock [OF a, of "[Op_confirm ''Change color?'' ''Sure?'' 0]" open_page]
    a b c d
  show ?thesis by simp
qed

text \<open>
  C5. \<^verbatim>\<open>Modal.close()\<close> is idempotent on the observable state: calling it twice in a row
  leaves the overlay's class list, the scroll-lock flag, the content slot and the answer
  of \<^verbatim>\<open>isOpen()\<close> as one call does, in every state.
\<close>

theorem close_idempotent:
  "modal_element (snd (Modal_close (snd (Modal_close s)))) = modal_element (snd (Modal_close s)) \<and>
   body_overflow (snd (Modal_close (snd (Modal_close s)))) = body_overflow (snd (Modal_close s)) \<and>
   modal_content (snd (Modal_close (snd (Modal_close s)))) = modal_content (snd (Modal_close s)) \<and>
   Modal_isOpen (snd (Modal_close (snd (Modal_close s)))) = Modal_isOpen (snd (Modal_close s))"
proof -
  have e: "modal_element (snd (Modal_close (snd (Modal_close s)))) = modal_element (snd (Modal_close s))"
    by (cases "modal_element s")
      (simp_all add: close_element DOM_removeClass_def classList_remove_def)
  have o: "body_overflow (snd (Modal_close (snd (Modal_close s)))) = body_overflow (snd (Modal_close s))"
    by (cases "modal_element s") (simp_all add: close_overflow close_element DOM_removeClass_def)
  have c: "modal_content (snd (Modal_close (snd (Modal_close s)))) = modal_content (snd (Modal_close s))"
    by (simp add: close_content)
  from e have i: "Modal_isOpen (snd (Modal_close (snd (Modal_close s)))) = Modal_isOpen (snd (Modal_close s))"
    by (simp add: Modal_isOpen_def)
  from e o c i show ?thesis by simp
qed

theorem close_idempotent_witness:
  "modal_element (snd (Modal_close open_page)) = Some [''modal''] \<and>
   modal_element (snd (Modal_close (snd (Modal_close open_page)))) = Some [''modal''] \<and>
   body_overflow (snd (Modal_close open_page)) = [] \<and>
   body_overflow (snd (Modal_close (snd (Modal_close open_page)))) = [] \<and>
   length (console (snd (Modal_close (snd (Modal_close open_page))))) =
     Suc (length (console (snd (Modal_close open_page))))"
  using close_idempotent [of open_page]
  by (simp add: open_page_eval demo_page_def modal_defs dom_defs log_defs)

section \<open>Missing templates\<close>

text \<open>
  C7. If the requested template is missing, \<^verbatim>\<open>Modal.alert\<close> and \<^verbatim>\<open>Modal.confirm\<close> return
  after one \<^verbatim>\<open>console.error\<close> line and leave the prior UI state as it was: the overlay's
  class list, the content slot and the scroll-lock flag keep their values (the whole state
  but the console does).
\<close>

theorem missing_template_aborts:
  "(templates s ''modal-alert'' = None \<longrightarrow>
      Modal_alert t m s =
        (Inr (), s\<lparr>console := console s @ [Console_error ''Template modal-alert not found'']\<rparr>) \<and>
      modal_element (snd (Modal_alert t m s)) = modal_element s \<and>
      modal_content (snd (Modal_alert t m s)) = modal_content s \<and>
      body_overflow (snd (Modal_alert t m s)) = body_overflow s) \<and>
   (templates s ''modal-confirm'' = None \<longrightarrow>
      Modal_confirm t m k s =
        (Inr (), s\<lparr>console := console s @ [Console_error ''Template modal-confirm not found'']\<rparr>) \<and>
      modal_element (snd (Modal_confirm t m k s)) = modal_element s \<and>
      modal_content (snd (Modal_confirm t m k s)) = modal_content s \<and>
      body_overflow (snd (Modal_confirm t m k s)) = body_overflow s)"
  by (simp add: Modal_alert_def Modal_confirm_def DOM_getTemplate_def)

theorem missing_template_aborts_witness:
  "templates open_page ''modal-alert'' = None \<and> templates open_page ''modal-confirm'' = None \<and>
   fst (Modal_alert ''Success!'' ''Done'' open_page) = Inr () \<and>
   modal_element (snd (Modal_alert ''Success!'' ''Done'' open_page)) = Some [''modal'', ''modal--active''] \<and>
   modal_content (snd (Modal_alert ''Success!'' ''Done'' open_page)) = Some [Text ''hello''] \<and>
   body_overflow (snd (Modal_alert ''Success!'' ''Done'' open_page)) = ''hidden'' \<and>
   console (snd (Modal_confirm ''Success!'' ''Done'' 0 open_page)) =
     [Console_log ''gray'' [Text_arg ''Modal opened''], Console_error ''Template modal-confirm not found'']"
  using missing_template_aborts [of open_page "''Success!''" "''Done''" 0]
  by (simp add: open_page_eval demo_page_def)

section \<open>Dismissal by a click on the backdrop\<close>

text \<open>
  C8. The click listener that \<^verbatim>\<open>Modal.init\<close> registers on the overlay root calls
  \<^verbatim>\<open>Modal.close\<close> if and only if the event's target is the overlay root itself (the empty
  path); a click whose target is a descendant leaves the state as it is, so an open modal
  stays open exactly when the target is a descendant.
\<close>

theorem background_click_closes_only_on_root:
  "(target = [] \<longrightarrow> Modal_init_click target s = Modal_close s) \<and>
   (target \<noteq> [] \<longrightarrow> Modal_init_click target s = (Inr (), s)) \<and>
   (Modal_isOpen s = JBool True \<longrightarrow>
      (Modal_isOpen (snd (Modal_init_click target s)) = JBool True) = (target \<noteq> []))"
proof -
  have "Modal_isOpen s = JBool True \<Longrightarrow> Modal_isOpen (snd (Modal_close s)) = JBool False"
    by (rule isOpen_after_close) (auto simp: Modal_isOpen_def split: if_splits)
  then show ?thesis by (auto simp: Modal_init_click_def)
qed

theorem background_click_closes_only_on_root_witness:
  "Modal_isOpen open_page = JBool True \<and>
   Modal_isOpen (snd (Modal_init_click [] open_page)) = JBool False \<and>
   body_overflow (snd (Modal_init_click [] open_page)) = [] \<and>
   Modal_init_click [0, 1] open_page = (Inr (), open_page) \<and>
   Modal_isOpen (snd (Modal_init_click [0, 1] open_page)) = JBool True"
  using background_click_closes_only_on_root [of "[]" open_page]
    background_click_closes_only_on_root [of "[0, 1]" open_page]
  by (simp add: open_page_eval demo_page_def modal_defs dom_defs log_defs)

section \<open>Overlay root absent\<close>

text \<open>
  C4 as stated fails on the page without an overlay (and so without the content slot that
  lives inside it): \<^verbatim>\<open>Modal.close\<close> returns without any diagnostic, and \<^verbatim>\<open>Modal.alert\<close> and
  \<^verbatim>\<open>Modal.confirm\<close>, when their template exists, throw a TypeError from
  \<^verbatim>\<open>DOM.get(selector, Modal.$.content)\<close>, which calls \<^verbatim>\<open>querySelector\<close> on \<^verbatim>\<open>null\<close>, after
  \<^verbatim>\<open>Modal.open\<close> has logged that the modal is not initialized.
\<close>

theorem overlay_absent_counterexample:
  "modal_element bare_page = None \<and> Log_ready bare_page \<and>
   Modal_close bare_page = (Inr (), bare_page) \<and>
   console (snd (Modal_close bare_page)) = console bare_page \<and>
   fst (Modal_alert ''Success!'' ''The color has been changed.'' bare_page) = Inl TypeError \<and>
   fst (Modal_confirm ''Change color?'' ''Do you want to change the background color?'' 0 bare_page)
     = Inl TypeError"
  by (simp add: bare_page_def page_defs modal_defs dom_defs log_defs)

text \<open>
  C4, amended. If the overlay root is absent (and \<^verbatim>\<open>Log.init\<close> has run), \<^verbatim>\<open>Modal.open\<close>,
  \<^verbatim>\<open>Modal.close\<close> and \<^verbatim>\<open>Modal.isOpen\<close> never throw and leave the page as it is:
  \<^verbatim>\<open>open\<close> adds one diagnostic line to the console, \<^verbatim>\<open>close\<close> and \<^verbatim>\<open>isOpen\<close> add none, and
  \<^verbatim>\<open>isOpen\<close> returns \<^verbatim>\<open>null\<close>. \<^verbatim>\<open>Modal.alert\<close> and \<^verbatim>\<open>Modal.confirm\<close> whose template is
  missing return after the template diagnostic and change nothing else.
\<close>

theorem overlay_absent_degrades:
  assumes "modal_element s = None" and "Log_ready s"
  shows "Modal_open c s =
           (Inr (), s\<lparr>console := console s @ [Console_log ''red'' [Text_arg ''Modal not initialized'']]\<rparr>) \<and>
         Modal_close s = (Inr (), s) \<and>
         Modal_isOpen s = JNull \<and>
         (templates s ''modal-alert'' = None \<longrightarrow>
            Modal_alert t m s =
              (Inr (), s\<lparr>console := console s @ [Console_error ''Template modal-alert not found'']\<rparr>)) \<and>
         (templates s ''modal-confirm'' = None \<longrightarrow>
            Modal_confirm t m k s =
              (Inr (), s\<lparr>console := console s @ [Console_error ''Template modal-confirm not found'']\<rparr>))"
proof -
  from assms have o: "Modal_open c s =
      (Inr (), s\<lparr>console := console s @ [Console_log ''red'' [Text_arg ''Modal not initialized'']]\<rparr>)"
    by (simp add: Modal_open_def log_defs)
  from assms have cl: "Modal_close s = (Inr (), s)"
    by (simp add: Modal_close_def)
  from assms have i: "Modal_isOpen s = JNull"
    by (simp add: Modal_isOpen_def)
  have a: "templates s ''modal-alert'' = None \<longrightarrow>
            Modal_alert t m s =
              (Inr (), s\<lparr>console := console s @ [Console_error ''Template modal-alert not found'']\<rparr>)"
    by (simp add: Modal_alert_def DOM_getTemplate_def)
  have cf: "templates s ''modal-confirm'' = None \<longrightarrow>
            Modal_confirm t m k s =
              (Inr (), s\<lparr>console := console s @ [Console_error ''Template modal-confirm not found'']\<rparr>)"
    by (simp add: Modal_confirm_def DOM_getTemplate_def)
  from o cl i a cf show ?thesis by simp
qed

theorem overlay_absent_degrades_witness:
  "modal_element blank_page = None \<and> Log_ready blank_page \<and>
   templates blank_page ''modal-alert'' = None \<and> templates blank_page ''modal-confirm'' = None \<and>
   fst (Modal_open (Value (JString ''hello'')) blank_page) = Inr () \<and>
   console (snd (Modal_open (Value (JString ''hello'')) blank_page)) =
     [Console_log ''red'' [Text_arg ''Modal not initialized'']] \<and>
   Modal_close blank_page = (Inr (), blank_page) \<and>
   Modal_isOpen blank_page = JNull \<and>
   fst (Modal_alert ''a'' ''b'' blank_page) = Inr () \<and>
   console (snd (Modal_confirm ''a'' ''b'' 0 blank_page)) =
     [Console_error ''Template modal-confirm not found'']"
proof -
  have h: "modal_element blank_page = None" "Log_ready blank_page"
    "templates blank_page ''modal-alert'' = None" "templates blank_page ''modal-confirm'' = None"
    "console blank_page = []"
    by (simp_all add: blank_page_def bare_page_def page_defs)
  from overlay_absent_degrades [OF h(1) h(2), of "Value (JString ''hello'')" "''a''" "''b''" 0] h
  show ?thesis by simp
qed

section \<open>The color demo\<close>

text \<open>
  C9. For every falsy argument (\<^verbatim>\<open>null\<close>, \<^verbatim>\<open>undefined\<close>, the empty string, and the other
  falsy values) \<^verbatim>\<open>Effects.updateMainColor\<close> is a complete no-op: it returns with the whole
  state as it was, so \<^verbatim>\<open>STATE.mainColor\<close>, the main element's style and the store keep
  their values.
\<close>

theorem updateMainColor_falsy_is_noop:
  "(\<not> truthy v \<longrightarrow> Effects_updateMainColor v s = (Inr (), s)) \<and>
   Effects_updateMainColor JNull s = (Inr (), s) \<and>
   Effects_updateMainColor JUndefined s = (Inr (), s) \<and>
   Effects_updateMainColor (JString []) s = (Inr (), s)"
  by (simp add: Effects_updateMainColor_def)

theorem updateMainColor_falsy_is_noop_witness:
  "\<not> truthy (JNumber 0) \<and> Effects_updateMainColor (JNumber 0) demo_page = (Inr (), demo_page) \<and>
   STATE_mainColor (snd (Effects_updateMainColor (JString []) demo_page)) = JString ''#111'' \<and>
   localStorage (snd (Effects_updateMainColor JNull demo_page)) ''main-color'' = None"
  using updateMainColor_falsy_is_noop [of "JNumber 0" demo_page]
  by (simp add: demo_page_def)

lemma updateMainColor_truthy_example:
  "fst (Effects_updateMainColor (JString ''#3a3a3a'') demo_page) = Inr () \<and>
   STATE_mainColor (snd (Effects_updateMainColor (JString ''#3a3a3a'') demo_page)) = JString ''#3a3a3a'' \<and>
   localStorage (snd (Effects_updateMainColor (JString ''#3a3a3a'') demo_page)) ''main-color''
     = Some (quote @ ''#3a3a3a'' @ quote) \<and>
   map_option (\<lambda>style. style ''backgroundColor'')
     (main_element (snd (Effects_updateMainColor (JString ''#3a3a3a'') demo_page)))
     = Some (Some (JString ''#3a3a3a''))"
  by (simp add: Effects_updateMainColor_def Storage_set_def localStorage_setItem_def
      CONFIG_storage_mainColor_def plain_stringify_def page_defs modal_defs dom_defs log_defs)

section \<open>The persisted color\<close>

text \<open>
  What the \<^verbatim>\<open>STATE\<close> initializer restores, case by case. The round trip takes from the
  platform that \<^verbatim>\<open>JSON.parse\<close> reads back the string that \<^verbatim>\<open>JSON.stringify\<close> wrote and
  that the text written is not empty; the color is not the empty string, which is falsy
  and would give way to the default. An unparsable value and a store that cannot be read
  end in the handler of \<^verbatim>\<open>Storage.get\<close>, which returns the default once \<^verbatim>\<open>Log.init()\<close>
  has run and throws before.
\<close>

lemma Storage_set_stores:
  assumes "\<not> storage_blocked s" and "\<not> storage_full s"
  shows "Storage_set key v s = (Inr (JBool True), s\<lparr>localStorage := (localStorage s)(key \<mapsto> JSON_stringify s v)\<rparr>)"
  using assms by (simp add: Storage_set_def localStorage_setItem_def)

lemma STATE_init_roundtrip:
  assumes "\<not> storage_blocked s" and "\<not> storage_full s" and "C \<noteq> []"
    and "JSON_stringify s (JString C) \<noteq> []"
    and "JSON_parse s' (JSON_stringify s (JString C)) = Some (JString C)"
    and "localStorage s' = localStorage (snd (Storage_set CONFIG_storage_mainColor (JString C) s))"
    and "\<not> storage_blocked s'"
  shows "STATE_init s' = (Inr (), s'\<lparr>STATE_mainColor := JString C\<rparr>)"
  using assms
  by (simp add: Storage_set_stores STATE_init_def Storage_get_def localStorage_getItem_def and_then_def)

lemma STATE_init_absent:
  assumes "\<not> storage_blocked s"
    and "localStorage s CONFIG_storage_mainColor = None \<or> localStorage s CONFIG_storage_mainColor = Some []"
  shows "STATE_init s = (Inr (), s\<lparr>STATE_mainColor := JString ''#111''\<rparr>)"
  using assms
  by (auto simp: STATE_init_def Storage_get_def localStorage_getItem_def and_then_def
      CONFIG_defaults_mainColor_def)

lemma STATE_init_unparsable:
  assumes "\<not> storage_blocked s" and "localStorage s CONFIG_storage_mainColor = Some item"
    and "item \<noteq> []" and "JSON_parse s item = None"
  shows "STATE_init s =
     (if Log_ready s
      then (Inr (), (Log_styled ''red'' [Text_arg ''Storage read error:'', Error_arg SyntaxError] s)
                      \<lparr>STATE_mainColor := JString ''#111''\<rparr>)
      else (Inl TypeError, s))"
  using assms
  by (simp add: STATE_init_def Storage_get_def localStorage_getItem_def and_then_def
      CONFIG_defaults_mainColor_def Log_red_def Log_shortcut_def Log_styles_def)

lemma STATE_init_blocked:
  assumes "storage_blocked s"
  shows "STATE_init s =
     (if Log_ready s
      then (Inr (), (Log_styled ''red'' [Text_arg ''Storage read error:'', Error_arg SecurityError] s)
                      \<lparr>STATE_mainColor := JString ''#111''\<rparr>)
      else (Inl TypeError, s))"
  using assms
  by (simp add: STATE_init_def Storage_get_def localStorage_getItem_def and_then_def
      CONFIG_defaults_mainColor_def Log_red_def Log_shortcut_def Log_styles_def)

text \<open>
  C2. The claim: a color written with \<^verbatim>\<open>Storage.set\<close> under the fixed key is the color the
  \<^verbatim>\<open>STATE\<close> initializer reads back at startup, and an absent or unparsable stored value
  yields the default \<^verbatim>\<open>#111\<close>. The round trip and the absent value behave so
  (\<open>STATE_init_roundtrip\<close>, \<open>STATE_init_absent\<close>). The unparsable value does not: on
  the page being loaded, where \<^verbatim>\<open>Log.init()\<close> has not run, with the text \<^verbatim>\<open>#111\<close> (no
  quotes) stored under \<^verbatim>\<open>main-color\<close>, \<^verbatim>\<open>JSON.parse\<close> throws, the handler in
  \<^verbatim>\<open>Storage.get\<close> calls \<^verbatim>\<open>Log.red\<close>, which does not exist yet, and the TypeError leaves
  the \<^verbatim>\<open>STATE\<close> initializer. No default is restored.
\<close>

theorem STATE_init_unparsable_store_throws:
  "\<not> Log_ready corrupt_page \<and>
   localStorage corrupt_page CONFIG_storage_mainColor = Some ''#111'' \<and>
   JSON_parse corrupt_page ''#111'' = None \<and>
   STATE_init corrupt_page = (Inl TypeError, corrupt_page) \<and>
   STATE_mainColor (snd (STATE_init corrupt_page)) \<noteq> JString ''#111''"
proof -
  have a: "\<not> Log_ready corrupt_page" "\<not> storage_blocked corrupt_page"
    "localStorage corrupt_page CONFIG_storage_mainColor = Some ''#111''"
    "JSON_parse corrupt_page ''#111'' = None"
    "STATE_mainColor corrupt_page = JUndefined"
    by (simp_all add: corrupt_page_def page_defs CONFIG_storage_mainColor_def plain_parse_def
        quote_def)
  from STATE_init_unparsable [OF a(2) a(3) _ a(4)] a(1)
  have "STATE_init corrupt_page = (Inl TypeError, corrupt_page)" by simp
  with a show ?thesis by simp
qed

text \<open>
  The same store read after \<^verbatim>\<open>Log.init()\<close>: the handler logs and the default is restored,
  which is what the handler is written to do.
\<close>

lemma STATE_init_after_Log_init:
  "Log_ready (Log_init s) \<and>
   fst (STATE_init (Log_init corrupt_page)) = Inr () \<and>
   STATE_mainColor (snd (STATE_init (Log_init corrupt_page))) = JString ''#111''"
  by (simp add: Log_init_def corrupt_page_def page_defs STATE_init_def Storage_get_def
      localStorage_getItem_def and_then_def log_defs plain_parse_def quote_def
      CONFIG_storage_mainColor_def CONFIG_defaults_mainColor_def)

lemma STATE_init_roundtrip_example:
  "STATE_mainColor (snd (STATE_init
      ((snd (Storage_set CONFIG_storage_mainColor (JString ''#3a3a3a'') demo_page))
         \<lparr>Log_ready := False, STATE_mainColor := JUndefined\<rparr>))) = JString ''#3a3a3a''"
  by (simp add: Storage_set_stores STATE_init_def Storage_get_def localStorage_getItem_def
      and_then_def demo_page_def plain_parse_def plain_stringify_def quote_def)

end
